theory Spec2Isabelle
  imports Complex_Main "HOL-Library.Word"
begin

section \<open>Numbers and vectors\<close>

text \<open>
  The program computes with IEEE single and double precision numbers. The embedding takes
  them as real numbers: rounding is outside the model. Where the source can produce an
  infinity or a NaN from finite operands (a division by zero, an \<open>asin\<close> outside its
  domain, a magnitude whose squares leave the range of the floats) the model says so with
  the type \<open>fval\<close> below.
\<close>

datatype fval = Fin real | PInf | NInf | NaN

text \<open>\<open>a / b\<close> on floats with finite operands: \<open>0/0\<close> is NaN, \<open>a/0\<close> is an infinity.\<close>

definition fdiv :: "real \<Rightarrow> real \<Rightarrow> fval" where
  "fdiv a b = (if b \<noteq> 0 then Fin (a / b) else if a = 0 then NaN else if 0 < a then PInf else NInf)"

text \<open>\<open>std::asin\<close>: a domain error (NaN) outside \<open>[-1, 1]\<close>, NaN on NaN.\<close>

fun fasin :: "fval \<Rightarrow> fval" where
  "fasin (Fin x) = (if -1 \<le> x \<and> x \<le> 1 then Fin (arcsin x) else NaN)"
| "fasin PInf = NaN"
| "fasin NInf = NaN"
| "fasin NaN = NaN"

text \<open>Multiplication of a float by a finite constant \<open>c\<close>.\<close>

fun fscale :: "real \<Rightarrow> fval \<Rightarrow> fval" where
  "fscale c (Fin x) = Fin (c * x)"
| "fscale c PInf = (if c = 0 then NaN else if 0 < c then PInf else NInf)"
| "fscale c NInf = (if c = 0 then NaN else if 0 < c then NInf else PInf)"
| "fscale c NaN = NaN"

text \<open>
  \<open>std::atan2(y, x)\<close> on finite operands. The reals have one zero and the floats two,
  and \<open>atan2\<close> reads the sign of a zero: for a zero \<open>y\<close> the result is \<open>pi\<close> with the
  sign of \<open>y\<close> when \<open>x\<close> is negative or the negative zero, and a zero otherwise. The
  flag \<open>ny\<close> says that a zero \<open>y\<close> is the negative zero, \<open>nx\<close> the same of \<open>x\<close>;
  neither is read for an operand that is not zero.
\<close>

definition atan2 :: "bool \<Rightarrow> bool \<Rightarrow> real \<Rightarrow> real \<Rightarrow> real" where
  "atan2 ny nx y x =
     (if 0 < x then arctan (y / x)
      else if x < 0
        then (if 0 < y then arctan (y / x) + pi
              else if y < 0 then arctan (y / x) - pi
              else if ny then - pi else pi)
      else if 0 < y then pi / 2
      else if y < 0 then - (pi / 2)
      else if nx then (if ny then - pi else pi)
      else 0)"

text \<open>\<open>std::fmod(x, y)\<close>: the remainder of the division truncated towards zero.\<close>

definition fmod :: "real \<Rightarrow> real \<Rightarrow> real" where
  "fmod x y = x - y * of_int (if 0 \<le> x / y then \<lfloor>x / y\<rfloor> else \<lceil>x / y\<rceil>)"

definition FLT_MAX :: real where
  "FLT_MAX = 340282346638528859811704183484516925440"

text \<open>The smallest positive float.\<close>

definition FLT_TRUE_MIN :: real where
  "FLT_TRUE_MIN = 1 / 2 ^ 149"

text \<open>
  Sum, difference and comparison with zero on floats that may be infinite or NaN; the
  product of a finite number and such a float is \<open>fscale\<close>. A comparison with NaN is
  false.
\<close>

fun fadd :: "fval \<Rightarrow> fval \<Rightarrow> fval" where
  "fadd (Fin a) (Fin b) = Fin (a + b)"
| "fadd NaN b = NaN"
| "fadd a NaN = NaN"
| "fadd PInf NInf = NaN"
| "fadd NInf PInf = NaN"
| "fadd PInf b = PInf"
| "fadd a PInf = PInf"
| "fadd NInf b = NInf"
| "fadd a NInf = NInf"

fun fneg :: "fval \<Rightarrow> fval" where
  "fneg (Fin a) = Fin (- a)"
| "fneg PInf = NInf"
| "fneg NInf = PInf"
| "fneg NaN = NaN"

definition fsub :: "fval \<Rightarrow> fval \<Rightarrow> fval" where
  "fsub a b = fadd a (fneg b)"

fun fpositive :: "fval \<Rightarrow> bool" where
  "fpositive (Fin a) = (0 < a)"
| "fpositive PInf = True"
| "fpositive NInf = False"
| "fpositive NaN = False"

text \<open>A finite float divided by a float that may be infinite: the quotient is zero then.\<close>

fun fdiv_by :: "real \<Rightarrow> fval \<Rightarrow> fval" where
  "fdiv_by a (Fin b) = fdiv a b"
| "fdiv_by a PInf = Fin 0"
| "fdiv_by a NInf = Fin 0"
| "fdiv_by a NaN = NaN"

text \<open>
  Modelled from the spec: \<open>Vec3f\<close> (\<open>vec3.h\<close> is not among the sources), a vector of
  three floats with componentwise sum and difference, scalar multiple, cross product and
  \<open>zero()\<close>; its default constructor gives the zero vector (normal synthesis starts from
  zero accumulators).
\<close>

type_synonym Vec3f = "real \<times> real \<times> real"

definition vzero :: Vec3f where
  "vzero = (0, 0, 0)"

fun vadd :: "Vec3f \<Rightarrow> Vec3f \<Rightarrow> Vec3f" where
  "vadd (a1, a2, a3) (b1, b2, b3) = (a1 + b1, a2 + b2, a3 + b3)"

fun vsub :: "Vec3f \<Rightarrow> Vec3f \<Rightarrow> Vec3f" where
  "vsub (a1, a2, a3) (b1, b2, b3) = (a1 - b1, a2 - b2, a3 - b3)"

fun vscale :: "real \<Rightarrow> Vec3f \<Rightarrow> Vec3f" where
  "vscale c (a1, a2, a3) = (c * a1, c * a2, c * a3)"

fun cross :: "Vec3f \<Rightarrow> Vec3f \<Rightarrow> Vec3f" where
  "cross (a1, a2, a3) (b1, b2, b3) = (a2 * b3 - a3 * b2, a3 * b1 - a1 * b3, a1 * b2 - a2 * b1)"

fun dotProduct :: "Vec3f \<Rightarrow> Vec3f \<Rightarrow> real" where
  "dotProduct (a1, a2, a3) (b1, b2, b3) = a1 * b1 + a2 * b2 + a3 * b3"

fun vlength :: "Vec3f \<Rightarrow> real" where
  "vlength (a1, a2, a3) = sqrt (a1 * a1 + a2 * a2 + a3 * a3)"

text \<open>
  The expression \<open>sqrt(x * x + y * y + z * z)\<close> on floats, as the texture mapping and the
  plane normalisation compute it: the sum is infinite beyond \<open>FLT_MAX\<close>, and a square of
  at most half the smallest positive float is zero, so that the magnitude of a vector of
  three such components is zero.
\<close>

definition float_magnitude :: "Vec3f \<Rightarrow> fval" where
  "float_magnitude a =
     (case a of (a1, a2, a3) \<Rightarrow>
        if FLT_MAX < a1 * a1 + a2 * a2 + a3 * a3 then PInf
        else if a1 * a1 \<le> FLT_TRUE_MIN / 2 \<and> a2 * a2 \<le> FLT_TRUE_MIN / 2 \<and>
                a3 * a3 \<le> FLT_TRUE_MIN / 2 then Fin 0
        else Fin (sqrt (a1 * a1 + a2 * a2 + a3 * a3)))"

text \<open>
  Modelled from the spec: \<open>Vec3f::normalize()\<close> divides a vector by its length. What it
  does with a vector of length zero is not visible in the sources: the parameter \<open>nz\<close>
  stands for that result.
\<close>

definition normalize :: "Vec3f \<Rightarrow> Vec3f \<Rightarrow> Vec3f" where
  "normalize nz a = (if vlength a = 0 then nz else vscale (1 / vlength a) a)"

section \<open>The mesh\<close>

type_synonym GLuint = "32 word"

type_synonym Triangle = "GLuint \<times> GLuint \<times> GLuint"

type_synonym TexCoord = "fval \<times> fval"

datatype ColoringType = STATIC_COLOR | COLOR_ARRAY | TEXTURE | BUMP_MAPPING

text \<open>
  The data members of \<open>TriangleMesh\<close>. Each \<open>autoMoved<GLuint>\<close> member is the
  \<open>GLuint\<close> it wraps; \<open>glf\<close> says whether the OpenGL function pointer \<open>f\<close> is set.
\<close>

record TriangleMesh =
  vertices :: "Vec3f list"
  normals :: "Vec3f list"
  triangles :: "Triangle list"
  colors :: "Vec3f list"
  texCoords :: "TexCoord list"
  tangents :: "Vec3f list"
  staticColor :: Vec3f
  coloringType :: ColoringType
  VAO :: GLuint
  VBOv :: GLuint
  VBOn :: GLuint
  VBOf :: GLuint
  VBOc :: GLuint
  VBOt :: GLuint
  VBOtan :: GLuint
  VAObb :: GLuint
  VBOvbb :: GLuint
  VBOfbb :: GLuint
  VAOn :: GLuint
  VBOvn :: GLuint
  textureID :: GLuint
  normalMapID :: GLuint
  displacementMapID :: GLuint
  withBB :: bool
  withNormals :: bool
  enableDiffuseTexture :: bool
  enableNormalMapping :: bool
  enableDisplacementMapping :: bool
  boundingBoxMin :: Vec3f
  boundingBoxMax :: Vec3f
  boundingBoxMid :: Vec3f
  boundingBoxSize :: Vec3f
  glf :: bool

text \<open>The fifteen GPU handle slots of a mesh, in declaration order.\<close>

definition handles :: "TriangleMesh \<Rightarrow> GLuint list" where
  "handles m = [VAO m, VBOv m, VBOn m, VBOf m, VBOc m, VBOt m, VBOtan m,
                VAObb m, VBOvbb m, VBOfbb m, VAOn m, VBOvn m,
                textureID m, normalMapID m, displacementMapID m]"

text \<open>
  \<open>cleanupVBO(f)\<close> deletes every buffer and vertex array whose name is not zero (an
  effect on the OpenGL context, which is not part of the mesh) and sets the twelve names
  to zero; \<open>cleanupVBO()\<close> does nothing without the function pointer.
\<close>

definition cleanupVBO_f :: "TriangleMesh \<Rightarrow> TriangleMesh" where
  "cleanupVBO_f m = m\<lparr>VBOv := 0, VBOn := 0, VBOf := 0, VBOc := 0, VBOt := 0, VBOtan := 0,
                       VAO := 0, VAObb := 0, VBOfbb := 0, VBOvbb := 0, VAOn := 0, VBOvn := 0\<rparr>"

definition cleanupVBO :: "TriangleMesh \<Rightarrow> TriangleMesh" where
  "cleanupVBO m = (if \<not> glf m then m else cleanupVBO_f m)"

definition clear :: "TriangleMesh \<Rightarrow> TriangleMesh" where
  "clear m = cleanupVBO (m\<lparr>vertices := [], triangles := [], normals := [], colors := [],
                            texCoords := [],
                            boundingBoxMin := (FLT_MAX, FLT_MAX, FLT_MAX),
                            boundingBoxMax := (- FLT_MAX, - FLT_MAX, - FLT_MAX),
                            boundingBoxMid := vzero, boundingBoxSize := vzero,
                            coloringType := STATIC_COLOR, withBB := False, withNormals := False,
                            textureID := 0\<rparr>)"

text \<open>
  The constructor \<open>TriangleMesh(f)\<close>: the default member initialisers, the static colour
  white, then \<open>clear()\<close>.
\<close>

definition TriangleMesh_new :: "bool \<Rightarrow> TriangleMesh" where
  "TriangleMesh_new fp = clear
     \<lparr>vertices = [], normals = [], triangles = [], colors = [], texCoords = [], tangents = [],
      staticColor = (1, 1, 1), coloringType = STATIC_COLOR,
      VAO = 0, VBOv = 0, VBOn = 0, VBOf = 0, VBOc = 0, VBOt = 0, VBOtan = 0,
      VAObb = 0, VBOvbb = 0, VBOfbb = 0, VAOn = 0, VBOvn = 0,
      textureID = 0, normalMapID = 0, displacementMapID = 0,
      withBB = False, withNormals = False, enableDiffuseTexture = False,
      enableNormalMapping = False, enableDisplacementMapping = False,
      boundingBoxMin = vzero, boundingBoxMax = vzero, boundingBoxMid = vzero,
      boundingBoxSize = vzero, glf = fp\<rparr>"

subsection \<open>Moving a mesh\<close>

text \<open>
  \<open>autoMoved<T>\<close>: the move constructor takes the value and resets the source to
  \<open>T()\<close>; the move assignment swaps the two values. Each function returns the
  destination and the source after the move. There is no copy: the copy constructor and
  the copy assignment are deleted, and the model has no function for them.
\<close>

definition autoMoved_move_construct :: "GLuint \<Rightarrow> GLuint \<times> GLuint" where
  "autoMoved_move_construct other = (other, 0)"

definition autoMoved_move_assign :: "GLuint \<Rightarrow> GLuint \<Rightarrow> GLuint \<times> GLuint" where
  "autoMoved_move_assign this other = (other, this)"

text \<open>
  The defaulted move operations of \<open>TriangleMesh\<close> move member by member: a
  \<open>std::vector\<close> hands its storage over and is left empty, a plain value is copied, a
  handle goes through \<open>autoMoved\<close>. The result is the destination and the source after
  the move.
\<close>

definition move_handles ::
  "(GLuint \<Rightarrow> GLuint \<Rightarrow> GLuint) \<Rightarrow> TriangleMesh \<Rightarrow> TriangleMesh \<Rightarrow> TriangleMesh \<Rightarrow> TriangleMesh" where
  "move_handles g this other m =
     m\<lparr>VAO := g (VAO this) (VAO other), VBOv := g (VBOv this) (VBOv other),
       VBOn := g (VBOn this) (VBOn other), VBOf := g (VBOf this) (VBOf other),
       VBOc := g (VBOc this) (VBOc other), VBOt := g (VBOt this) (VBOt other),
       VBOtan := g (VBOtan this) (VBOtan other), VAObb := g (VAObb this) (VAObb other),
       VBOvbb := g (VBOvbb this) (VBOvbb other), VBOfbb := g (VBOfbb this) (VBOfbb other),
       VAOn := g (VAOn this) (VAOn other), VBOvn := g (VBOvn this) (VBOvn other),
       textureID := g (textureID this) (textureID other),
       normalMapID := g (normalMapID this) (normalMapID other),
       displacementMapID := g (displacementMapID this) (displacementMapID other)\<rparr>"

definition vectors_moved_out :: "TriangleMesh \<Rightarrow> TriangleMesh" where
  "vectors_moved_out m =
     m\<lparr>vertices := [], normals := [], triangles := [], colors := [], texCoords := [],
       tangents := []\<rparr>"

definition TriangleMesh_move_construct :: "TriangleMesh \<Rightarrow> TriangleMesh \<times> TriangleMesh" where
  "TriangleMesh_move_construct other =
     (move_handles (\<lambda>dst src. fst (autoMoved_move_construct src)) other other other,
      move_handles (\<lambda>dst src. snd (autoMoved_move_construct src)) other other
        (vectors_moved_out other))"

definition TriangleMesh_move_assign ::
  "TriangleMesh \<Rightarrow> TriangleMesh \<Rightarrow> TriangleMesh \<times> TriangleMesh" where
  "TriangleMesh_move_assign this other =
     (move_handles (\<lambda>dst src. fst (autoMoved_move_assign dst src)) this other other,
      move_handles (\<lambda>dst src. snd (autoMoved_move_assign dst src)) this other
        (vectors_moved_out other))"

text \<open>Two meshes that own GPU objects: every handle slot holds a name that is not zero.\<close>

definition mesh_a :: TriangleMesh where
  "mesh_a = (TriangleMesh_new True)
     \<lparr>VAO := 1, VBOv := 2, VBOn := 3, VBOf := 4, VBOc := 5, VBOt := 6, VBOtan := 7,
      VAObb := 8, VBOvbb := 9, VBOfbb := 10, VAOn := 11, VBOvn := 12,
      textureID := 13, normalMapID := 14, displacementMapID := 15\<rparr>"

definition mesh_b :: TriangleMesh where
  "mesh_b = (TriangleMesh_new True)
     \<lparr>VAO := 101, VBOv := 102, VBOn := 103, VBOf := 104, VBOc := 105, VBOt := 106,
      VBOtan := 107, VAObb := 108, VBOvbb := 109, VBOfbb := 110, VAOn := 111, VBOvn := 112,
      textureID := 113, normalMapID := 114, displacementMapID := 115\<rparr>"

text \<open>
  A mesh holding one vertex of the sphere of \<open>generateSphere\<close>, which fills the
  tangents with the other arrays.
\<close>

definition mesh_with_tangents :: TriangleMesh where
  "mesh_with_tangents = (TriangleMesh_new True)
     \<lparr>vertices := [(1, 0, 0)], normals := [(1, 0, 0)], texCoords := [(Fin 2, Fin 0.5)],
      tangents := [(0, 0, - 1)]\<rparr>"

section \<open>The camera\<close>

text \<open>The camera members of \<open>OpenGLView\<close>; a \<open>QVector3D\<close> is a triple of floats.\<close>

record Camera =
  cameraPos :: Vec3f
  cameraDir :: Vec3f
  angleX :: real
  angleY :: real

text \<open>
  \<open>cameraRotates\<close>: \<open>std::min\<close> and \<open>std::max\<close> on finite floats; \<open>update()\<close> only asks
  Qt for a repaint.
\<close>

definition cameraRotates :: "Camera \<Rightarrow> real \<Rightarrow> real \<Rightarrow> Camera" where
  "cameraRotates cam deltaX deltaY =
     (let aX = fmod (angleX cam + deltaX) 360;
          aY = max (- 70) (min (angleY cam + deltaY) 70);
          radX = aX * pi / 180;
          radY = aY * pi / 180;
          dx = sin radX * cos radY;
          dz = - cos radX * cos radY;
          dy = max 0 (min (sqrt (1 - dx * dx - dz * dz)) 1)
      in cam\<lparr>angleX := aX, angleY := aY,
              cameraDir := (dx, if aY < 0 then - dy else dy, dz)\<rparr>)"

text \<open>A sequence of calls, each with its yaw and pitch delta.\<close>

fun rotate_calls :: "Camera \<Rightarrow> (real \<times> real) list \<Rightarrow> Camera" where
  "rotate_calls cam [] = cam"
| "rotate_calls cam ((deltaX, deltaY) # calls) = rotate_calls (cameraRotates cam deltaX deltaY) calls"

text \<open>
  The camera that \<open>setDefaults\<close> sets up in the constructor.
  \<open>QVector3D::normalized()\<close> gives the null vector for a null vector.
\<close>

definition setDefaults :: Camera where
  "setDefaults =
     (let dir = normalize vzero (0.3, - 1.2, - 0.8)
      in \<lparr>cameraPos = (- 12, 32, 32), cameraDir = dir,
          angleX = atan2 False False (fst dir) (- snd (snd dir)) * 180 / pi,
          angleY = arcsin (fst (snd dir)) * 180 / pi\<rparr>)"

section \<open>Heightmap generation\<close>

datatype error = LengthError | OutOfRange

text \<open>
  \<open>rand()\<close> is the sequence \<open>rnd\<close> of the values it returns, read at a position that
  each call advances. \<open>RAND_MAX\<close> is the value of the GNU C library.
\<close>

definition RAND_MAX :: nat where
  "RAND_MAX = 2147483647"

text \<open>Arithmetic on \<open>int\<close>: 32 bits, two's complement.\<close>

definition wrap32 :: "int \<Rightarrow> int" where
  "wrap32 i = sint (word_of_int i :: 32 word)"

definition displace :: "int \<Rightarrow> real \<Rightarrow> real \<Rightarrow> real \<Rightarrow> real" where
  "displace displacementType displacement waveSize sdist =
     (if displacementType = 0 then displacement / 2 * cos (sdist / waveSize * pi)
      else if displacementType = 1 then displacement / 2 * sin (sdist / waveSize * pi)
      else (if 0 < sdist then displacement else - displacement))"

text \<open>The body of the two inner loops: \<open>heightmap[x][z] += ...\<close>, in place.\<close>

definition cell_step ::
  "int \<Rightarrow> real \<Rightarrow> real \<Rightarrow> real \<Rightarrow> real \<Rightarrow> nat \<Rightarrow> real list list \<Rightarrow> nat \<Rightarrow> real list list" where
  "cell_step displacementType waveSize a b c x heightmap z =
     heightmap[x := (heightmap ! x)
        [z := heightmap ! x ! z +
              displace displacementType 0.1 waveSize (a * real x + b * real z - c)]]"

definition row_step ::
  "int \<Rightarrow> real \<Rightarrow> real \<Rightarrow> real \<Rightarrow> real \<Rightarrow> real list list \<Rightarrow> nat \<Rightarrow> real list list" where
  "row_step displacementType waveSize a b c heightmap x =
     fold (\<lambda>z h. cell_step displacementType waveSize a b c x h z)
          [0..<length (heightmap ! 0)] heightmap"

definition fault_pass ::
  "int \<Rightarrow> real \<Rightarrow> real \<Rightarrow> real \<Rightarrow> real \<Rightarrow> real list list \<Rightarrow> real list list" where
  "fault_pass displacementType waveSize a b c heightmap =
     fold (\<lambda>x h. row_step displacementType waveSize a b c h x) [0..<length heightmap] heightmap"

text \<open>The outer loop, \<open>iterations\<close> times: two calls of \<open>rand()\<close>, then one pass over the grid.\<close>

fun fault_iterations ::
  "(nat \<Rightarrow> nat) \<Rightarrow> int \<Rightarrow> real \<Rightarrow> real \<Rightarrow> nat \<Rightarrow> nat \<Rightarrow> real list list \<Rightarrow> real list list \<times> nat" where
  "fault_iterations rnd displacementType d waveSize 0 pos heightmap = (heightmap, pos)"
| "fault_iterations rnd displacementType d waveSize (Suc i) pos heightmap =
     (let v = real (rnd pos) * pi / 180;
          a = sin v;
          b = cos v;
          c = real (rnd (pos + 1)) / real RAND_MAX * d - d / 2
      in fault_iterations rnd displacementType d waveSize i (pos + 2)
           (fault_pass displacementType waveSize a b c heightmap))"

text \<open>
  \<open>generateHeightmap(l, w, iterations, displacementType)\<close>. The two \<open>std::vector\<close>
  constructors take their size as an unsigned number: a negative \<open>int\<close> becomes a size
  beyond \<open>max_size()\<close> and the constructor throws \<open>std::length_error\<close>; the row of
  \<open>w\<close> zeros is built first. Memory is taken as unbounded. Where the sum of the two
  squares wraps to a negative number, the square root of the source is NaN and the model
  has the value of \<open>sqrt\<close> on the reals instead; no property below rests on that
  case. The result is the grid and the position in the random sequence.
\<close>

definition generateHeightmap ::
  "(nat \<Rightarrow> nat) \<Rightarrow> nat \<Rightarrow> int \<Rightarrow> int \<Rightarrow> int \<Rightarrow> int \<Rightarrow> error + (real list list \<times> nat)" where
  "generateHeightmap rnd pos l w iterations displacementType =
     (if w < 0 then Inl LengthError
      else if l < 0 then Inl LengthError
      else let heightmap = replicate (nat l) (replicate (nat w) 0);
               d = sqrt (real_of_int (wrap32 (w * w + l * l)));
               waveSize = d / 10
           in Inr (fault_iterations rnd displacementType d waveSize (nat iterations) pos heightmap))"

section \<open>Normals and texture coordinates\<close>

text \<open>\<open>std::vector::resize(n)\<close>: the first \<open>n\<close> elements stay, new ones are value-initialised.\<close>

definition resize :: "nat \<Rightarrow> 'a \<Rightarrow> 'a list \<Rightarrow> 'a list" where
  "resize k a xs = take k xs @ replicate (k - length xs) a"

text \<open>
  The body of the loop over the triangles. An index beyond the arrays is undefined
  behaviour in the source (\<open>operator[]\<close> does not check); the model stops with
  \<open>OutOfRange\<close>. The three additions run one after the other, so that an index
  occurring twice in a triangle receives the normal twice.
\<close>

definition add_triangle_normal :: "Vec3f list \<Rightarrow> Vec3f list \<Rightarrow> Triangle \<Rightarrow> error + Vec3f list" where
  "add_triangle_normal vs ns triangle =
     (case triangle of (t0, t1, t2) \<Rightarrow>
        let id0 = unat t0; id1 = unat t1; id2 = unat t2
        in if id0 < length vs \<and> id1 < length vs \<and> id2 < length vs \<and>
              id0 < length ns \<and> id1 < length ns \<and> id2 < length ns
           then let vec1 = vsub (vs ! id1) (vs ! id0);
                    vec2 = vsub (vs ! id2) (vs ! id0);
                    normal = cross vec1 vec2;
                    ns0 = ns[id0 := vadd (ns ! id0) normal];
                    ns1 = ns0[id1 := vadd (ns0 ! id1) normal]
                in Inr (ns1[id2 := vadd (ns1 ! id2) normal])
           else Inl OutOfRange)"

fun sum_triangle_normals :: "Vec3f list \<Rightarrow> Triangle list \<Rightarrow> Vec3f list \<Rightarrow> error + Vec3f list" where
  "sum_triangle_normals vs [] ns = Inr ns"
| "sum_triangle_normals vs (triangle # ts) ns =
     (case add_triangle_normal vs ns triangle of
        Inl e \<Rightarrow> Inl e
      | Inr ns' \<Rightarrow> sum_triangle_normals vs ts ns')"

definition calculateNormalsByArea :: "Vec3f \<Rightarrow> TriangleMesh \<Rightarrow> error + TriangleMesh" where
  "calculateNormalsByArea nz m =
     (case sum_triangle_normals (vertices m) (triangles m)
             (resize (length (vertices m)) vzero (normals m)) of
        Inl e \<Rightarrow> Inl e
      | Inr ns \<Rightarrow> Inr (m\<lparr>normals := map (normalize nz) ns\<rparr>))"

text \<open>
  The texture coordinate of one vertex: \<open>M_1_PI\<close> is \<open>1 / pi\<close>, and the quotient under
  \<open>asin\<close> is a float division, which has no guard. The pair \<open>zsign\<close> holds the signs
  of the zeros that \<open>atan2\<close> may read: its first component says that a zero \<open>dist.x()\<close>
  is the negative zero, its second the same of \<open>dist.z()\<close>.
\<close>

definition sphere_texcoord :: "bool \<times> bool \<Rightarrow> Vec3f \<Rightarrow> Vec3f \<Rightarrow> TexCoord" where
  "sphere_texcoord zsign mid vertex =
     (case vsub vertex mid of (dx, dy, dz) \<Rightarrow>
        (Fin ((1 / pi) / 2 * atan2 (fst zsign) (snd zsign) dx dz + 0.5),
         fscale (1 / pi) (fasin (fdiv_by dy (float_magnitude (dx, dy, dz))))))"

text \<open>
  The loop over the vertices. The vertices of the model are real and carry no sign of
  zero: \<open>zs i\<close> gives the signs of the zeros in the offset of vertex \<open>i\<close>. A float
  difference that is zero is the negative zero only for \<open>(-0) - (+0)\<close>, so that no offset
  has a negative zero unless a vertex coordinate is the negative zero.
\<close>

definition calculateTexCoordsSphereMapping :: "(nat \<Rightarrow> bool \<times> bool) \<Rightarrow> TriangleMesh \<Rightarrow> TriangleMesh" where
  "calculateTexCoordsSphereMapping zs m =
     m\<lparr>texCoords := map (\<lambda>i. sphere_texcoord (zs i) (boundingBoxMid m) (vertices m ! i))
                         [0..<length (vertices m)]\<rparr>"

text \<open>The signs of zero for a mesh without negative zeros.\<close>

definition no_negative_zero :: "nat \<Rightarrow> bool \<times> bool" where
  "no_negative_zero i = (False, False)"

section \<open>GPU buffers\<close>

text \<open>
  The names that the OpenGL driver hands out, one for each \<open>glGenVertexArrays\<close> and each
  \<open>createVBO\<close> of \<open>createAllVBOs\<close> (\<open>createVBO\<close> gives 0 when the upload failed).
\<close>

record gl_names =
  new_VAO :: GLuint
  new_VBOf :: GLuint
  new_VBOv :: GLuint
  new_VBOn :: GLuint
  new_VBOc :: GLuint
  new_VBOt :: GLuint
  new_VBOtan :: GLuint
  new_VAObb :: GLuint
  new_VBOvbb :: GLuint
  new_VBOfbb :: GLuint
  new_VAOn :: GLuint
  new_VBOvn :: GLuint

definition createBBVAO :: "gl_names \<Rightarrow> TriangleMesh \<Rightarrow> TriangleMesh" where
  "createBBVAO gl m = m\<lparr>VAObb := new_VAObb gl, VBOvbb := new_VBOvbb gl, VBOfbb := new_VBOfbb gl\<rparr>"

definition createNormalVAO :: "gl_names \<Rightarrow> TriangleMesh \<Rightarrow> TriangleMesh" where
  "createNormalVAO gl m =
     (if length (vertices m) \<noteq> length (normals m) then m
      else m\<lparr>VAOn := new_VAOn gl, VBOvn := new_VBOvn gl\<rparr>)"

definition createAllVBOs :: "gl_names \<Rightarrow> TriangleMesh \<Rightarrow> TriangleMesh" where
  "createAllVBOs gl m =
     (if \<not> glf m then m
      else let m1 = m\<lparr>VAO := new_VAO gl, VBOf := new_VBOf gl, VBOv := new_VBOv gl,
                      VBOn := new_VBOn gl\<rparr>;
               m2 = (if length (colors m1) = length (vertices m1)
                     then m1\<lparr>VBOc := new_VBOc gl\<rparr> else m1);
               m3 = (if length (texCoords m2) = length (vertices m2)
                     then m2\<lparr>VBOt := new_VBOt gl\<rparr> else m2);
               m4 = (if length (tangents m3) = length (vertices m3)
                     then m3\<lparr>VBOtan := new_VBOtan gl\<rparr> else m3)
           in createNormalVAO gl (createBBVAO gl m4))"

section \<open>Loading a polygon file\<close>

text \<open>
  A file is the sequence of directives that the stream extraction of \<open>loadOBJ\<close> reads
  from it: \<open>v\<close> and \<open>vn\<close> with their three floats, \<open>f\<close> with the integers that
  \<open>ss >> num\<close> takes from the rest of the line (each an \<open>int\<close> of 32 bits), and any
  other first word. The characters of the file and the stream's error states are outside
  the model.
\<close>

datatype directive = V real real real | VN real real real | F "32 word list" | Other

text \<open>
  One number of a face: \<open>if (num < 0) num = vertices.size() + 1 + num;\<close>, then
  \<open>num - 1\<close> is stored and later cast to \<open>unsigned int\<close>. The sum is computed in
  \<open>size_t\<close> and cut to 32 bits by the assignment.
\<close>

definition face_index :: "nat \<Rightarrow> 32 word \<Rightarrow> GLuint" where
  "face_index nvertices num =
     (if sint num < 0 then word_of_nat nvertices + 1 + num else num) - 1"

text \<open>One round of the reading loop, on the mesh and the number of warnings printed.\<close>

fun obj_directive :: "directive \<Rightarrow> TriangleMesh \<times> nat \<Rightarrow> TriangleMesh \<times> nat" where
  "obj_directive (V x y z) (m, warnings) =
     (case (boundingBoxMin m, boundingBoxMax m) of ((lx, ly, lz), (hx, hy, hz)) \<Rightarrow>
        (m\<lparr>vertices := vertices m @ [(x, y, z)],
           boundingBoxMin := (min x lx, min y ly, min z lz),
           boundingBoxMax := (max x hx, max y hy, max z hz)\<rparr>, warnings))"
| "obj_directive (VN x y z) (m, warnings) = (m\<lparr>normals := normals m @ [(x, y, z)]\<rparr>, warnings)"
| "obj_directive (F nums) (m, warnings) =
     (let indices = map (face_index (length (vertices m))) nums
      in if length indices = 3
         then (m\<lparr>triangles := triangles m @ [(indices ! 0, indices ! 1, indices ! 2)]\<rparr>, warnings)
         else (m, warnings + 1))"
| "obj_directive Other (m, warnings) = (m, warnings)"

text \<open>
  \<open>loadOBJ(filename, createVBOs)\<close>: \<open>None\<close> is a file that cannot be opened. The result
  is the mesh and the number of warnings, or the error of the normal synthesis. The signs
  \<open>zs\<close> of the zero offsets are those that the floats of the file give.
\<close>

definition loadOBJ ::
  "Vec3f \<Rightarrow> (nat \<Rightarrow> bool \<times> bool) \<Rightarrow> gl_names \<Rightarrow> directive list option \<Rightarrow> bool \<Rightarrow> TriangleMesh \<Rightarrow>
   error + (TriangleMesh \<times> nat)" where
  "loadOBJ nz zs gl file createVBOs m0 =
     (let m = clear m0
      in case file of
           None \<Rightarrow> Inr (m, 0)
         | Some ds \<Rightarrow>
             (case fold obj_directive ds (m, 0) of (m1, warnings) \<Rightarrow>
                let m2 = m1\<lparr>boundingBoxMid := vadd (vscale 0.5 (boundingBoxMin m1))
                                                  (vscale 0.5 (boundingBoxMax m1)),
                            boundingBoxSize := vsub (boundingBoxMax m1) (boundingBoxMin m1)\<rparr>
                in case (if length (normals m2) \<noteq> length (vertices m2)
                         then calculateNormalsByArea nz m2 else Inr m2) of
                     Inl e \<Rightarrow> Inl e
                   | Inr m3 \<Rightarrow>
                       let m4 = calculateTexCoordsSphereMapping zs m3
                       in Inr (if createVBOs then createAllVBOs gl m4 else m4, warnings)))"

section \<open>View frustum culling\<close>

text \<open>
  A \<open>QMatrix4x4\<close> by row and column; \<open>data()\<close> gives its sixteen entries column by
  column. The product is the one of Qt.
\<close>

type_synonym QMatrix4x4 = "nat \<Rightarrow> nat \<Rightarrow> real"

definition mat_mul :: "QMatrix4x4 \<Rightarrow> QMatrix4x4 \<Rightarrow> QMatrix4x4" where
  "mat_mul A B = (\<lambda>r c. A r 0 * B 0 c + A r 1 * B 1 c + A r 2 * B 2 c + A r 3 * B 3 c)"

definition mat_data :: "QMatrix4x4 \<Rightarrow> nat \<Rightarrow> real" where
  "mat_data M i = M (i mod 4) (i div 4)"

definition mat_identity :: QMatrix4x4 where
  "mat_identity = (\<lambda>r c. if r = c then 1 else 0)"

text \<open>
  The matrix that \<open>QMatrix4x4::perspective\<close> puts on the identity, from the cotangent of
  half the vertical angle, the aspect ratio and the two plane distances.
\<close>

definition perspective :: "real \<Rightarrow> real \<Rightarrow> real \<Rightarrow> real \<Rightarrow> QMatrix4x4" where
  "perspective cotan aspectRatio nearPlane farPlane =
     (\<lambda>r c. if r = 0 \<and> c = 0 then cotan / aspectRatio
             else if r = 1 \<and> c = 1 then cotan
             else if r = 2 \<and> c = 2 then - (nearPlane + farPlane) / (farPlane - nearPlane)
             else if r = 2 \<and> c = 3 then - (2 * nearPlane * farPlane) / (farPlane - nearPlane)
             else if r = 3 \<and> c = 2 then - 1
             else 0)"

text \<open>
  Modelled from the spec: \<open>RenderState\<close> (\<open>renderstate.h\<close> is not among the sources)
  holds the current projection and model-view matrix.
\<close>

record RenderState =
  projectionMatrix :: QMatrix4x4
  modelViewMatrix :: QMatrix4x4

text \<open>The clip plane \<open>ax + by + cz - d = 0\<close> of the header.\<close>

record Plane =
  plane_n :: Vec3f
  plane_d :: real

text \<open>
  The plane after the normalisation loop, which divides normal and distance by the
  magnitude of the normal. The magnitude is infinite where the squares overflow, and the
  plane is then the zero plane; it is zero for a zero normal and where the squares
  underflow, and the components are then NaN or infinite.
\<close>

record NormalizedPlane =
  normalized_n :: "fval \<times> fval \<times> fval"
  normalized_d :: fval

definition normalize_plane :: "Plane \<Rightarrow> NormalizedPlane" where
  "normalize_plane plane =
     (case plane_n plane of (a, b, c) \<Rightarrow>
        let magnitude = float_magnitude (a, b, c)
        in \<lparr>normalized_n = (fdiv_by a magnitude, fdiv_by b magnitude, fdiv_by c magnitude),
            normalized_d = fdiv_by (plane_d plane) magnitude\<rparr>)"

text \<open>
  The test of the loop in \<open>isInsideFrustum\<close>, \<open>dotProduct(p, plane.n) - plane.d > 0\<close>, with
  the products and sums of \<open>QVector3D::dotProduct\<close>.
\<close>

definition plane_rejects :: "Vec3f \<Rightarrow> NormalizedPlane \<Rightarrow> bool" where
  "plane_rejects p plane =
     (case (p, normalized_n plane) of ((x, y, z), (a, b, c)) \<Rightarrow>
        fpositive (fsub (fadd (fadd (fscale x a) (fscale y b)) (fscale z c))
                        (normalized_d plane)))"

fun isInsideFrustum :: "TriangleMesh \<Rightarrow> NormalizedPlane list \<Rightarrow> bool" where
  "isInsideFrustum m [] = True"
| "isInsideFrustum m (plane # planes) =
     (if plane_rejects (boundingBoxMid m) plane then False else isInsideFrustum m planes)"

definition frustum_planes :: "QMatrix4x4 \<Rightarrow> Plane list" where
  "frustum_planes VP =
     (let vp = mat_data VP
      in [\<lparr>plane_n = (vp 3 + vp 0, vp 7 + vp 4, vp 11 + vp 8), plane_d = vp 15 + vp 12\<rparr>,
          \<lparr>plane_n = (vp 3 - vp 0, vp 7 - vp 4, vp 11 - vp 8), plane_d = vp 15 - vp 12\<rparr>,
          \<lparr>plane_n = (vp 3 + vp 1, vp 7 + vp 5, vp 11 + vp 9), plane_d = vp 15 + vp 13\<rparr>,
          \<lparr>plane_n = (vp 3 - vp 1, vp 7 - vp 5, vp 11 - vp 9), plane_d = vp 15 - vp 13\<rparr>,
          \<lparr>plane_n = (vp 3 + vp 2, vp 7 + vp 6, vp 11 + vp 10), plane_d = vp 15 + vp 14\<rparr>,
          \<lparr>plane_n = (vp 3 - vp 2, vp 7 - vp 6, vp 11 - vp 10), plane_d = vp 15 - vp 14\<rparr>])"

definition boundingBoxIsVisible :: "RenderState \<Rightarrow> TriangleMesh \<Rightarrow> bool" where
  "boundingBoxIsVisible state m =
     (let VP = mat_mul (projectionMatrix state) (modelViewMatrix state)
      in isInsideFrustum m (map normalize_plane (frustum_planes VP)))"


text \<open>
  Modelled from the spec: the clip planes and their inside half-spaces. The plane of the
  standard identities is row 3 of \<open>VP\<close> plus or minus (\<open>sg\<close>) row \<open>i\<close>: its first three entries are the
  normal, its fourth the offset. A point \<open>p\<close> with clip coordinates \<open>VP (p, 1)\<close> is in
  the inside half-space when the plane applied to \<open>(p, 1)\<close>, divided by the magnitude of
  the normal, is not negative. A row sum without normal is no plane and has no outside.
\<close>

definition row_plane :: "QMatrix4x4 \<Rightarrow> nat \<Rightarrow> real \<Rightarrow> Plane" where
  "row_plane VP i sg =
     \<lparr>plane_n = (VP 3 0 + sg * VP i 0, VP 3 1 + sg * VP i 1, VP 3 2 + sg * VP i 2),
      plane_d = VP 3 3 + sg * VP i 3\<rparr>"

definition inside_half_space :: "QMatrix4x4 \<Rightarrow> nat \<Rightarrow> real \<Rightarrow> Vec3f \<Rightarrow> bool" where
  "inside_half_space VP i sg p =
     (let magnitude = vlength (plane_n (row_plane VP i sg))
      in magnitude = 0 \<or>
         0 \<le> dotProduct p (vscale (1 / magnitude) (plane_n (row_plane VP i sg))) +
             plane_d (row_plane VP i sg) / magnitude)"

text \<open>The six planes: left, right, bottom, top, near and far.\<close>

definition all_planes :: "(nat \<Rightarrow> real \<Rightarrow> bool) \<Rightarrow> bool" where
  "all_planes P = (P 0 1 \<and> P 0 (- 1) \<and> P 1 1 \<and> P 1 (- 1) \<and> P 2 1 \<and> P 2 (- 1))"

text \<open>
  The normal of a plane is in the range of the floats when the sum of its squares does not
  overflow and, unless it is the zero vector, not every square underflows to zero.
\<close>

definition in_float_range :: "QMatrix4x4 \<Rightarrow> nat \<Rightarrow> real \<Rightarrow> bool" where
  "in_float_range VP i sg =
     (case plane_n (row_plane VP i sg) of (a, b, c) \<Rightarrow>
        a * a + b * b + c * c \<le> FLT_MAX \<and>
        (a = 0 \<and> b = 0 \<and> c = 0 \<or>
         FLT_TRUE_MIN / 2 < a * a \<or> FLT_TRUE_MIN / 2 < b * b \<or> FLT_TRUE_MIN / 2 < c * c))"

text \<open>
  Two render states with the identity as model-view matrix: a perspective projection with
  a vertical angle of 90 degrees, aspect ratio 1, near plane 1 and far plane 3, and the
  identity as projection. A new mesh has its midpoint at the origin; \<open>mesh_far\<close> has it
  at depth -5.
\<close>

definition state_perspective :: RenderState where
  "state_perspective = \<lparr>projectionMatrix = perspective 1 1 1 3, modelViewMatrix = mat_identity\<rparr>"



section \<open>Example files\<close>

definition gl_fresh :: gl_names where
  "gl_fresh = \<lparr>new_VAO = 1, new_VBOf = 2, new_VBOv = 3, new_VBOn = 4, new_VBOc = 5,
               new_VBOt = 6, new_VBOtan = 7, new_VAObb = 8, new_VBOvbb = 9, new_VBOfbb = 10,
               new_VAOn = 11, new_VBOvn = 12\<rparr>"

text \<open>A file with one vertex.\<close>

definition file_single_vertex :: "directive list" where
  "file_single_vertex = [V 1 2 3]"

text \<open>
  The file \<open>v -1 -1 -1\<close>, \<open>v 1 1 1\<close>, \<open>v -0 0 -0\<close>: the third vertex is the midpoint
  of the bounding box, and its offsets in \<open>x\<close> and \<open>z\<close> are negative zeros.
\<close>

definition file_negative_zero :: "directive list" where
  "file_negative_zero = [V (- 1) (- 1) (- 1), V 1 1 1, V 0 0 0]"

definition zeros_negative_zero :: "nat \<Rightarrow> bool \<times> bool" where
  "zeros_negative_zero i = (if i = 2 then (True, True) else (False, False))"

text \<open>The mesh of that file after the reading loop and the update of the bounding box.\<close>

definition mesh_negative_zero :: TriangleMesh where
  "mesh_negative_zero =
     (let m1 = fst (fold obj_directive file_negative_zero (TriangleMesh_new True, 0))
      in m1\<lparr>boundingBoxMid := vadd (vscale 0.5 (boundingBoxMin m1))
                                    (vscale 0.5 (boundingBoxMax m1)),
            boundingBoxSize := vsub (boundingBoxMax m1) (boundingBoxMin m1)\<rparr>)"

text \<open>A triangle in the plane \<open>z = 0\<close>, and four normals for three vertices.\<close>

definition file_stale_normals :: "directive list" where
  "file_stale_normals =
     [V 0 0 0, V 1 0 0, V 0 1 0,
      VN 0 0 (- 2), VN 0 0 (- 2), VN 0 0 (- 2), VN 0 0 (- 2),
      F [1, 2, 3]]"

text \<open>
  A comment, the four vertices of a square, two triangular faces, the second with
  negative indices, and a face with five indices.
\<close>

definition file_quad :: "directive list" where
  "file_quad =
     [Other, V 0 0 0, V 1 0 0, V 1 1 0, V 0 1 0,
      F [1, 2, 3], F [- 4, - 2, - 1], F [1, 2, 3, 4, 1]]"

definition quad_loaded :: "error + (TriangleMesh \<times> nat)" where
  "quad_loaded =
     loadOBJ vzero no_negative_zero gl_fresh (Some file_quad) False (TriangleMesh_new True)"

text \<open>One vertex with its normal, and a face with the index 0, or with indices beyond 1.\<close>

definition file_index_zero :: "directive list" where
  "file_index_zero = [V 0 0 0, VN 0 0 1, F [0, 1, 1]]"

definition file_index_beyond :: "directive list" where
  "file_index_beyond = [V 0 0 0, VN 0 0 1, F [5, 6, 7]]"

text \<open>
  The conversion of a face index in the words of the specification, on integers: a
  negative index counts from the current number of vertices, and the 1-based index
  becomes 0-based.
\<close>

definition spec_face_index :: "nat \<Rightarrow> int \<Rightarrow> int" where
  "spec_face_index currentVertexCount index =
     (if index < 0 then int currentVertexCount + 1 + index else index) - 1"

fun is_vertex :: "directive \<Rightarrow> bool" where
  "is_vertex (V x y z) = True"
| "is_vertex _ = False"

fun is_triangle_face :: "directive \<Rightarrow> bool" where
  "is_triangle_face (F nums) = (length nums = 3)"
| "is_triangle_face _ = False"

fun is_dropped_face :: "directive \<Rightarrow> bool" where
  "is_dropped_face (F nums) = (length nums \<noteq> 3)"
| "is_dropped_face _ = False"

section \<open>Properties of the mesh resource\<close>

lemmas move_defs = TriangleMesh_move_construct_def TriangleMesh_move_assign_def move_handles_def
  vectors_moved_out_def autoMoved_move_construct_def autoMoved_move_assign_def handles_def

lemmas clear_defs = clear_def cleanupVBO_def cleanupVBO_f_def

text \<open>
  C2, as the code has it. A move construction hands every GPU handle of the source to the
  new mesh and leaves zero in every slot of the source. A move assignment swaps: the
  destination receives the handles of the source, and the source receives the handles that
  the destination held before (zero only where the destination held zero). There is no
  copy operation.
\<close>

theorem move_transfers_handles:
  "handles (fst (TriangleMesh_move_construct other)) = handles other \<and>
   handles (snd (TriangleMesh_move_construct other)) = replicate 15 0 \<and>
   handles (fst (TriangleMesh_move_assign this other)) = handles other \<and>
   handles (snd (TriangleMesh_move_assign this other)) = handles this"
  by (simp add: move_defs eval_nat_numeral)

text \<open>
  C2 as stated fails for the move assignment: assigning \<open>mesh_a\<close>, whose fifteen handles
  are 1 to 15, to \<open>mesh_b\<close>, whose handles are 101 to 115, leaves 101 to 115 in the
  moved-from \<open>mesh_a\<close>, not zero.
\<close>

theorem move_assign_source_not_zero:
  "handles mesh_a = [1, 2, 3, 4, 5, 6, 7, 8, 9, 10, 11, 12, 13, 14, 15] \<and>
   handles (snd (TriangleMesh_move_assign mesh_b mesh_a)) =
     [101, 102, 103, 104, 105, 106, 107, 108, 109, 110, 111, 112, 113, 114, 115]"
  by (simp add: move_defs mesh_a_def mesh_b_def)

text \<open>
  What \<open>clear()\<close> does reset: five of the six attribute arrays, and the bounding box to
  the sentinel. The tangents are not touched.
\<close>

lemma clear_resets:
  "vertices (clear m) = [] \<and> triangles (clear m) = [] \<and> normals (clear m) = [] \<and>
   colors (clear m) = [] \<and> texCoords (clear m) = [] \<and>
   boundingBoxMin (clear m) = (FLT_MAX, FLT_MAX, FLT_MAX) \<and>
   boundingBoxMax (clear m) = (- FLT_MAX, - FLT_MAX, - FLT_MAX)"
  by (simp add: clear_defs)

lemma clear_tangents: "tangents (clear m) = tangents m"
  by (simp add: clear_defs)

text \<open>
  C4 at a mesh with one tangent: after \<open>clear()\<close> the vertices, normals and texture
  coordinates are empty and the bounding box is the sentinel, but the tangent is still
  there.
\<close>

theorem clear_keeps_tangents:
  "vertices (clear mesh_with_tangents) = [] \<and>
   normals (clear mesh_with_tangents) = [] \<and>
   texCoords (clear mesh_with_tangents) = [] \<and>
   boundingBoxMin (clear mesh_with_tangents) = (FLT_MAX, FLT_MAX, FLT_MAX) \<and>
   boundingBoxMax (clear mesh_with_tangents) = (- FLT_MAX, - FLT_MAX, - FLT_MAX) \<and>
   tangents (clear mesh_with_tangents) = [(0, 0, - 1)]"
  by (simp add: clear_defs mesh_with_tangents_def)

section \<open>Properties of the camera\<close>

lemma cameraRotates_angleY:
  "angleY (cameraRotates cam deltaX deltaY) = max (- 70) (min (angleY cam + deltaY) 70)"
  by (simp add: cameraRotates_def Let_def)

lemma rotate_calls_range:
  "calls \<noteq> [] \<Longrightarrow>
   - 70 \<le> angleY (rotate_calls cam calls) \<and> angleY (rotate_calls cam calls) \<le> 70"
proof (induction calls arbitrary: cam)
  case Nil
  then show ?case by simp
next
  case (Cons call calls)
  obtain dx dy where call: "call = (dx, dy)" by (cases call)
  show ?case
  proof (cases "calls = []")
    case True
    then show ?thesis by (simp add: call cameraRotates_angleY)
  next
    case False
    then show ?thesis using Cons.IH [of "cameraRotates cam dx dy"] by (simp add: call)
  qed
qed

text \<open>
  The pitch of the camera that the constructor sets up is an arc sine in degrees, between
  -90 and 90.
\<close>

lemma setDefaults_pitch: "- 90 \<le> angleY setDefaults \<and> angleY setDefaults \<le> 90"
proof -
  define y :: real where "y = - 1.2 / sqrt 2.17"
  have "(1.2 :: real) \<le> sqrt 2.17"
    by (rule real_le_rsqrt) (simp add: power2_eq_square)
  then have y: "- 1 \<le> y" "y \<le> 1"
    by (simp_all add: y_def field_simps)
  have b: "- (pi / 2) \<le> arcsin y" "arcsin y \<le> pi / 2"
    using arcsin_lbound [of y] arcsin_ubound [of y] y by auto
  have a: "angleY setDefaults = arcsin y * 180 / pi"
  proof -
    have "(0.3 * 0.3 + 1.2 * 1.2 + 0.8 * 0.8 :: real) = 2.17" by simp
    then show ?thesis
      by (simp add: setDefaults_def normalize_def Let_def vzero_def y_def mult.commute)
  qed
  have "- 90 \<le> arcsin y * 180 / pi"
    using b(1) pi_gt_zero by (simp add: field_simps)
  moreover have "arcsin y * 180 / pi \<le> 90"
    using b(2) pi_gt_zero by (simp add: field_simps)
  ultimately show ?thesis by (simp add: a)
qed

lemma reachable_pitch:
  "- 90 \<le> angleY (rotate_calls setDefaults calls) \<and> angleY (rotate_calls setDefaults calls) \<le> 90"
proof (cases "calls = []")
  case True
  then show ?thesis using setDefaults_pitch by simp
next
  case False
  from rotate_calls_range [OF this, of setDefaults] show ?thesis by simp
qed

lemma rotate_calls_keep_top:
  "angleY cam = 70 \<Longrightarrow> \<forall>c \<in> set later. 0 \<le> snd c \<Longrightarrow> angleY (rotate_calls cam later) = 70"
proof (induction later arbitrary: cam)
  case Nil
  then show ?case by simp
next
  case (Cons call later)
  obtain dx dy where call: "call = (dx, dy)" by (cases call)
  from Cons.prems have "angleY (cameraRotates cam dx dy) = 70"
    by (simp add: call cameraRotates_angleY)
  from Cons.IH [OF this] Cons.prems(2) show ?case
    by (simp add: call)
qed

text \<open>
  C8. After every call of \<open>cameraRotates\<close>, from any camera, the pitch \<open>angleY\<close> lies
  between -70 and 70, and so it does after every sequence of at least one call on the
  camera that the constructor sets up. In every state that such a sequence reaches,
  the constructor's own state among them, a call with pitch delta 1000 leaves exactly 70,
  and further calls with pitch deltas that are not negative keep exactly 70.
\<close>

theorem cameraRotates_pitch_clamp:
  "- 70 \<le> angleY (cameraRotates cam deltaX deltaY) \<and>
   angleY (cameraRotates cam deltaX deltaY) \<le> 70 \<and>
   (calls \<noteq> [] \<longrightarrow>
      - 70 \<le> angleY (rotate_calls setDefaults calls) \<and>
      angleY (rotate_calls setDefaults calls) \<le> 70) \<and>
   angleY (cameraRotates (rotate_calls setDefaults calls) deltaX 1000) = 70 \<and>
   ((\<forall>c \<in> set later. 0 \<le> snd c) \<longrightarrow>
      angleY (rotate_calls (cameraRotates (rotate_calls setDefaults calls) deltaX 1000) later) = 70)"
proof -
  have top: "angleY (cameraRotates (rotate_calls setDefaults calls) deltaX 1000) = 70"
    using reachable_pitch [of calls] by (simp add: cameraRotates_angleY)
  show ?thesis
    using rotate_calls_range [of calls setDefaults] top
      rotate_calls_keep_top [OF top, of later]
    by (auto simp add: cameraRotates_angleY)
qed

text \<open>
  C8 on the camera of the constructor after one call with deltas 10 and -20: the pitch is
  within the range, a pitch delta of 1000 gives 70, and the further deltas 5 and 0 keep 70.
\<close>

theorem cameraRotates_pitch_clamp_witness:
  "[(10, - 20)] \<noteq> ([] :: (real \<times> real) list) \<and>
   - 70 \<le> angleY (rotate_calls setDefaults [(10, - 20)]) \<and>
   angleY (rotate_calls setDefaults [(10, - 20)]) \<le> 70 \<and>
   angleY (cameraRotates (rotate_calls setDefaults [(10, - 20)]) 0 1000) = 70 \<and>
   (0 :: real) \<le> snd (0 :: real, 5 :: real) \<and> (0 :: real) \<le> snd (3 :: real, 0 :: real) \<and>
   angleY (rotate_calls (cameraRotates (rotate_calls setDefaults [(10, - 20)]) 0 1000)
             [(0, 5), (3, 0)]) = 70"
proof -
  note a = cameraRotates_pitch_clamp
    [where calls = "[(10, - 20)]" and deltaX = 0 and later = "[(0, 5), (3, 0)]"
       and cam = setDefaults and deltaY = 0]
  have nn: "\<forall>c \<in> set [(0, 5), (3, 0 :: real)]. 0 \<le> snd c"
    by simp
  have r: "- 70 \<le> angleY (rotate_calls setDefaults [(10, - 20)]) \<and>
           angleY (rotate_calls setDefaults [(10, - 20)]) \<le> 70"
    using a [THEN conjunct2, THEN conjunct2, THEN conjunct1] by blast
  have t: "angleY (cameraRotates (rotate_calls setDefaults [(10, - 20)]) 0 1000) = 70"
    using a [THEN conjunct2, THEN conjunct2, THEN conjunct2, THEN conjunct1] .
  have k: "angleY (rotate_calls (cameraRotates (rotate_calls setDefaults [(10, - 20)]) 0 1000)
             [(0, 5), (3, 0)]) = 70"
    using a [THEN conjunct2, THEN conjunct2, THEN conjunct2, THEN conjunct2] nn by blast
  show ?thesis
    using r t k by simp
qed

section \<open>Properties of the heightmap generation\<close>

lemma fault_iterations_empty:
  "fault_iterations rnd dt d ws i pos [] = ([], pos + 2 * i)"
  by (induction i arbitrary: pos) (simp_all add: fault_pass_def Let_def)

lemma row_step_empty_rows: "length (h ! 0) = 0 \<Longrightarrow> row_step dt ws a b c h x = h"
  by (simp add: row_step_def)

lemma fold_row_step_empty_rows:
  "length (h ! 0) = 0 \<Longrightarrow> fold (\<lambda>x h. row_step dt ws a b c h x) xs h = h"
  by (induction xs) (simp_all add: row_step_empty_rows)

lemma fault_pass_empty_rows: "length (h ! 0) = 0 \<Longrightarrow> fault_pass dt ws a b c h = h"
  by (simp add: fault_pass_def fold_row_step_empty_rows)

lemma fault_iterations_empty_rows:
  "length (h ! 0) = 0 \<Longrightarrow> fault_iterations rnd dt d ws i pos h = (h, pos + 2 * i)"
  by (induction i arbitrary: pos) (simp_all add: fault_pass_empty_rows Let_def)

text \<open>
  C7. For a length and a width of at least 1 and every displacement kind, the generation
  with no iteration returns a grid of \<open>l\<close> rows of \<open>w\<close> elevations, every one of
  them zero, and draws no random number.
\<close>

theorem generateHeightmap_no_iterations:
  "1 \<le> l \<Longrightarrow> 1 \<le> w \<Longrightarrow>
   generateHeightmap rnd pos l w 0 displacementType =
     Inr (replicate (nat l) (replicate (nat w) 0), pos)"
  by (simp add: generateHeightmap_def Let_def)

text \<open>C7 for 2 rows and 3 columns.\<close>

theorem generateHeightmap_no_iterations_witness:
  "(1 :: int) \<le> 2 \<and> (1 :: int) \<le> 3 \<and>
   generateHeightmap (\<lambda>i. 0) 0 2 3 0 1 = Inr ([[0, 0, 0], [0, 0, 0]], 0)"
  using generateHeightmap_no_iterations [of 2 3 "\<lambda>i. 0" 0 1]
  by (simp add: eval_nat_numeral)

text \<open>
  C3, as the code has it. \<open>generateHeightmap\<close> checks no dimension itself. A negative
  length or width fails in the constructor of the vector. With length 0, or with width 0,
  there is no failure: the result is the empty grid, or \<open>l\<close> empty rows, and every
  iteration still draws its two random numbers.
\<close>

theorem generateHeightmap_small_dimensions:
  "(w < 0 \<or> l < 0 \<longrightarrow>
      generateHeightmap rnd pos l w iterations displacementType = Inl LengthError) \<and>
   (l = 0 \<and> 0 \<le> w \<longrightarrow>
      generateHeightmap rnd pos l w iterations displacementType =
        Inr ([], pos + 2 * nat iterations)) \<and>
   (1 \<le> l \<and> w = 0 \<longrightarrow>
      generateHeightmap rnd pos l w iterations displacementType =
        Inr (replicate (nat l) [], pos + 2 * nat iterations))"
proof -
  have "length (replicate (nat l) ([] :: real list) ! 0) = 0" if "1 \<le> l"
    using that by simp
  then show ?thesis
    by (auto simp add: generateHeightmap_def Let_def fault_iterations_empty
        fault_iterations_empty_rows)
qed

text \<open>C3 at length -1, at length 0 and at width 0, with 7 iterations.\<close>

theorem generateHeightmap_small_dimensions_witness:
  "(- 1 :: int) < 0 \<and> generateHeightmap (\<lambda>i. 0) 0 (- 1) 5 7 0 = Inl LengthError \<and>
   (0 :: int) \<le> 5 \<and> generateHeightmap (\<lambda>i. 0) 0 0 5 7 0 = Inr ([], 14) \<and>
   (1 :: int) \<le> 2 \<and> generateHeightmap (\<lambda>i. 0) 0 2 0 7 0 = Inr ([[], []], 14)"
  using generateHeightmap_small_dimensions [of 5 "- 1" "\<lambda>i. 0" 0 7 0]
    generateHeightmap_small_dimensions [of 5 0 "\<lambda>i. 0" 0 7 0]
    generateHeightmap_small_dimensions [of 0 2 "\<lambda>i. 0" 0 7 0]
  by (simp add: eval_nat_numeral)

text \<open>
  C3 as stated fails at length 0: the call with length 0, width 5 and no iteration returns
  a heightmap, the empty grid, and no error.
\<close>

theorem generateHeightmap_zero_length:
  "generateHeightmap (\<lambda>i. 0) 0 0 5 0 0 = Inr ([], 0)"
  by (simp add: generateHeightmap_def Let_def)

section \<open>Properties of the normal and texture synthesis\<close>

lemma vlength_zero_iff: "vlength a = 0 \<longleftrightarrow> a = vzero"
proof (cases a)
  case (fields a1 a2 a3)
  have "a1 * a1 + a2 * a2 + a3 * a3 = 0 \<longleftrightarrow> a1 = 0 \<and> a2 = 0 \<and> a3 = 0"
    by (auto simp add: add_nonneg_eq_0_iff)
  then show ?thesis by (simp add: fields vzero_def)
qed

lemma vlength_vscale: "vlength (vscale c a) = \<bar>c\<bar> * vlength a"
proof (cases a)
  case (fields a1 a2 a3)
  have "c * a1 * (c * a1) + c * a2 * (c * a2) + c * a3 * (c * a3)
        = c\<^sup>2 * (a1 * a1 + a2 * a2 + a3 * a3)"
    by (simp add: power2_eq_square algebra_simps)
  then show ?thesis
    by (simp add: fields real_sqrt_mult)
qed

lemma vlength_normalize: "vlength a \<noteq> 0 \<Longrightarrow> vlength (normalize nz a) = 1"
proof -
  assume nz: "vlength a \<noteq> 0"
  have "0 \<le> vlength a" by (cases a) simp
  with nz have "0 < vlength a" by simp
  then show ?thesis
    using nz by (simp add: normalize_def vlength_vscale)
qed

text \<open>
  On a mesh of three vertices and the triangle over them, without normals before the
  call and with a triangle that has an area, the three normals are the normalised cross
  product of the two edge vectors, of length 1.
\<close>

lemma calculateNormalsByArea_single_triangle:
  assumes "vertices m = [p0, p1, p2]" and "triangles m = [(0, 1, 2)]" and "normals m = []"
    and "cross (vsub p1 p0) (vsub p2 p0) \<noteq> vzero"
  shows "calculateNormalsByArea nz m =
           Inr (m\<lparr>normals := [normalize nz (cross (vsub p1 p0) (vsub p2 p0)),
                              normalize nz (cross (vsub p1 p0) (vsub p2 p0)),
                              normalize nz (cross (vsub p1 p0) (vsub p2 p0))]\<rparr>) \<and>
         vlength (normalize nz (cross (vsub p1 p0) (vsub p2 p0))) = 1"
proof -
  obtain c1 c2 c3 where c: "cross (vsub p1 p0) (vsub p2 p0) = (c1, c2, c3)"
    by (cases "cross (vsub p1 p0) (vsub p2 p0)")
  have "calculateNormalsByArea nz m =
          Inr (m\<lparr>normals := [normalize nz (cross (vsub p1 p0) (vsub p2 p0)),
                             normalize nz (cross (vsub p1 p0) (vsub p2 p0)),
                             normalize nz (cross (vsub p1 p0) (vsub p2 p0))]\<rparr>)"
    by (simp add: calculateNormalsByArea_def assms(1,2,3) resize_def add_triangle_normal_def
        Let_def c vzero_def)
  moreover have "vlength (normalize nz (cross (vsub p1 p0) (vsub p2 p0))) = 1"
    using assms(4) by (simp add: vlength_normalize vlength_zero_iff)
  ultimately show ?thesis by simp
qed

lemmas load_defs = loadOBJ_def clear_def cleanupVBO_def cleanupVBO_f_def TriangleMesh_new_def
  calculateNormalsByArea_def calculateTexCoordsSphereMapping_def resize_def
  add_triangle_normal_def face_index_def FLT_MAX_def vzero_def normalize_def Let_def

text \<open>
  C5 on a file with three vertices, one triangle and four normals (0, 0, -2): the
  accumulators start from the normals of the file, not from zero, and the three normals
  come out as (0, 0, -1), while the normalised cross product of the edge vectors is
  (0, 0, 1).
\<close>

theorem loadOBJ_stale_normals:
  "map_sum id (normals \<circ> fst)
     (loadOBJ vzero no_negative_zero gl_fresh (Some file_stale_normals) False (TriangleMesh_new True)) =
     Inr [(0, 0, - 1), (0, 0, - 1), (0, 0, - 1)] \<and>
   normalize vzero (cross (vsub (1, 0, 0) (0, 0, 0)) (vsub (0, 1, 0) (0, 0, 0))) = (0, 0, 1)"
  by (simp add: load_defs file_stale_normals_def)

lemma float_magnitude_vzero: "float_magnitude (0, 0, 0) = Fin 0"
  by (simp add: float_magnitude_def FLT_MAX_def FLT_TRUE_MIN_def)

text \<open>Where the magnitude of the offset is zero, the quotient under \<open>asin\<close> is NaN or infinite.\<close>

lemma texcoord_v_NaN:
  "float_magnitude (dx, dy, dz) = Fin 0 \<Longrightarrow>
   fscale c (fasin (fdiv_by dy (float_magnitude (dx, dy, dz)))) = NaN"
  by (simp add: fdiv_def)

lemma texcoord_u_zero:
  "Fin ((1 / pi) / 2 * atan2 ny nx 0 0 + 0.5) = Fin (if nx then (if ny then 0 else 1) else 1 / 2)"
  by (simp add: atan2_def)

lemma sphere_texcoord_at_midpoint:
  assumes "float_magnitude (vsub vertex mid) = Fin 0"
  shows "snd (sphere_texcoord zsign mid vertex) = NaN \<and>
         (vsub vertex mid = vzero \<longrightarrow>
            fst (sphere_texcoord zsign mid vertex) =
              Fin (if snd zsign then (if fst zsign then 0 else 1) else 1 / 2))"
proof -
  obtain dx dy dz where d: "vsub vertex mid = (dx, dy, dz)"
    by (cases "vsub vertex mid")
  from assms have "float_magnitude (dx, dy, dz) = Fin 0"
    by (simp add: d)
  from texcoord_v_NaN [OF this] texcoord_u_zero [of "fst zsign" "snd zsign"] show ?thesis
    by (auto simp add: sphere_texcoord_def d vzero_def)
qed

text \<open>
  The values of \<open>u\<close> above are those of the arithmetic of the reals, where the product of
  \<open>1 / (2 pi)\<close> and \<open>pi\<close> is a half; the floats round \<open>pi\<close> and give values next to 0
  and 1 for the negative zero.
\<close>

text \<open>
  C6, as the code has it. For a vertex whose offset from the midpoint of the bounding box
  has the magnitude zero, \<open>v\<close> is NaN: the quotient under \<open>asin\<close> is \<open>0 / 0\<close> or
  infinite, and nothing guards it. Nothing guards \<open>u\<close> either: for an offset of zeros it
  is what \<open>atan2\<close> gives on the two zeros, which is 0.5 where the offset in \<open>z\<close> is the
  positive zero and is not 0.5 where it is the negative zero.
\<close>

theorem texcoord_at_midpoint:
  "i < length (vertices m) \<Longrightarrow>
   float_magnitude (vsub (vertices m ! i) (boundingBoxMid m)) = Fin 0 \<Longrightarrow>
   snd (texCoords (calculateTexCoordsSphereMapping zs m) ! i) = NaN \<and>
   (vsub (vertices m ! i) (boundingBoxMid m) = vzero \<and> \<not> snd (zs i) \<longrightarrow>
      fst (texCoords (calculateTexCoordsSphereMapping zs m) ! i) = Fin (1 / 2)) \<and>
   (vsub (vertices m ! i) (boundingBoxMid m) = vzero \<and> snd (zs i) \<longrightarrow>
      fst (texCoords (calculateTexCoordsSphereMapping zs m) ! i) \<noteq> Fin (1 / 2))"
  using sphere_texcoord_at_midpoint [of "vertices m ! i" "boundingBoxMid m" "zs i"]
  by (simp add: calculateTexCoordsSphereMapping_def)

text \<open>
  The mesh of the file \<open>file_negative_zero\<close> after the reading loop and the bounding
  box update.
\<close>

lemma negative_zero_mesh:
  "vertices (mesh_negative_zero) = [(- 1, - 1, - 1), (1, 1, 1), (0, 0, 0)] \<and>
   boundingBoxMid (mesh_negative_zero) = (0, 0, 0)"
  by (simp add: mesh_negative_zero_def file_negative_zero_def clear_defs TriangleMesh_new_def
      FLT_MAX_def)

text \<open>
  C6 on the third vertex of that mesh, the midpoint of the bounding box: \<open>v\<close> is NaN;
  with negative zeros as offsets in \<open>x\<close> and \<open>z\<close>, \<open>u\<close> is not 0.5, and with positive
  zeros it is 0.5.
\<close>

theorem texcoord_at_midpoint_witness:
  "(2 :: nat) < length (vertices mesh_negative_zero) \<and>
   float_magnitude (vsub (vertices mesh_negative_zero ! 2) (boundingBoxMid mesh_negative_zero))
     = Fin 0 \<and>
   vsub (vertices mesh_negative_zero ! 2) (boundingBoxMid mesh_negative_zero) = vzero \<and>
   snd (zeros_negative_zero 2) \<and>
   snd (texCoords (calculateTexCoordsSphereMapping zeros_negative_zero mesh_negative_zero) ! 2)
     = NaN \<and>
   fst (texCoords (calculateTexCoordsSphereMapping zeros_negative_zero mesh_negative_zero) ! 2)
     \<noteq> Fin (1 / 2) \<and>
   \<not> snd (no_negative_zero 2) \<and>
   texCoords (calculateTexCoordsSphereMapping no_negative_zero mesh_negative_zero) ! 2
     = (Fin (1 / 2), NaN)"
proof -
  have a: "(2 :: nat) < length (vertices mesh_negative_zero)"
    by (simp add: negative_zero_mesh)
  have z: "vsub (vertices mesh_negative_zero ! 2) (boundingBoxMid mesh_negative_zero) = vzero"
    by (simp add: negative_zero_mesh vzero_def)
  have b: "float_magnitude (vsub (vertices mesh_negative_zero ! 2)
             (boundingBoxMid mesh_negative_zero)) = Fin 0"
    by (simp add: z vzero_def float_magnitude_vzero)
  have f: "snd (zeros_negative_zero 2)" "\<not> snd (no_negative_zero 2)"
    by (simp_all add: zeros_negative_zero_def no_negative_zero_def)
  from texcoord_at_midpoint [OF a b, of zeros_negative_zero] z f(1)
  have c: "snd (texCoords (calculateTexCoordsSphereMapping zeros_negative_zero
             mesh_negative_zero) ! 2) = NaN \<and>
           fst (texCoords (calculateTexCoordsSphereMapping zeros_negative_zero
             mesh_negative_zero) ! 2) \<noteq> Fin (1 / 2)"
    by simp
  from texcoord_at_midpoint [OF a b, of no_negative_zero] z f(2)
  have d: "texCoords (calculateTexCoordsSphereMapping no_negative_zero mesh_negative_zero) ! 2
           = (Fin (1 / 2), NaN)"
    by (simp add: prod_eq_iff)
  show ?thesis
    using a b z c d f by simp
qed

text \<open>
  C6 as stated fails on the file with one vertex: the vertex is the midpoint of its
  bounding box, and its texture coordinates are 0.5 and NaN, not 0.5 and 0.5.
\<close>

theorem loadOBJ_single_vertex:
  "map_sum id (vertices \<circ> fst)
     (loadOBJ vzero no_negative_zero gl_fresh (Some file_single_vertex) False
        (TriangleMesh_new True)) = Inr [(1, 2, 3)] \<and>
   map_sum id (boundingBoxMid \<circ> fst)
     (loadOBJ vzero no_negative_zero gl_fresh (Some file_single_vertex) False
        (TriangleMesh_new True)) = Inr (1, 2, 3) \<and>
   map_sum id (texCoords \<circ> fst)
     (loadOBJ vzero no_negative_zero gl_fresh (Some file_single_vertex) False
        (TriangleMesh_new True)) = Inr [(Fin (1 / 2), NaN)] \<and>
   NaN \<noteq> Fin (1 / 2)"
  by (simp add: load_defs file_single_vertex_def sphere_texcoord_def atan2_def fdiv_def
      float_magnitude_vzero no_negative_zero_def)

section \<open>Properties of the polygon file loader\<close>

lemma face_index_word: "face_index k num = word_of_int (spec_face_index k (sint num))"
  by (simp add: face_index_def spec_face_index_def)

lemma face_index_spec:
  assumes "k < 2 ^ 31" and "0 \<le> spec_face_index k (sint num)"
  shows "uint (face_index k num) = spec_face_index k (sint num)"
proof -
  have "sint num < 2 ^ 31"
    using sint_lt [of num] by simp
  then have "spec_face_index k (sint num) < 2 ^ 32"
    using assms(1) by (simp add: spec_face_index_def split: if_splits)
  then show ?thesis
    using assms(2) by (simp add: face_index_word uint_word_of_int take_bit_int_eq_self)
qed

lemma obj_directive_counts:
  "obj_directive x (m, w) = (m', w') \<Longrightarrow>
   length (vertices m') = length (vertices m) + (if is_vertex x then 1 else 0) \<and>
   length (triangles m') = length (triangles m) + (if is_triangle_face x then 1 else 0) \<and>
   w' = w + (if is_dropped_face x then 1 else 0)"
  by (cases x) (auto simp add: Let_def split: prod.splits if_splits)

lemma fold_obj_directive_counts:
  "fold obj_directive ds (m, w) = (m', w') \<Longrightarrow>
   length (vertices m') = length (vertices m) + length (filter is_vertex ds) \<and>
   length (triangles m') = length (triangles m) + length (filter is_triangle_face ds) \<and>
   w' = w + length (filter is_dropped_face ds)"
proof (induction ds arbitrary: m w)
  case Nil
  then show ?case by simp
next
  case (Cons x ds)
  obtain m1 w1 where step: "obj_directive x (m, w) = (m1, w1)"
    by (cases "obj_directive x (m, w)")
  from Cons.prems have "fold obj_directive ds (m1, w1) = (m', w')"
    by (simp add: step)
  from Cons.IH [OF this] obj_directive_counts [OF step] show ?case
    by simp
qed

lemma calculateNormalsByArea_keeps:
  "calculateNormalsByArea nz m = Inr m' \<Longrightarrow>
   vertices m' = vertices m \<and> triangles m' = triangles m"
  by (auto simp add: calculateNormalsByArea_def split: sum.splits)

lemma createAllVBOs_keeps:
  "vertices (createAllVBOs gl m) = vertices m \<and> triangles (createAllVBOs gl m) = triangles m"
  by (simp add: createAllVBOs_def createNormalVAO_def createBBVAO_def Let_def)

lemma loadOBJ_arrays:
  assumes "loadOBJ nz zs gl (Some ds) createVBOs m0 = Inr (m', w')"
  shows "vertices m' = vertices (fst (fold obj_directive ds (clear m0, 0))) \<and>
         triangles m' = triangles (fst (fold obj_directive ds (clear m0, 0))) \<and>
         w' = snd (fold obj_directive ds (clear m0, 0))"
proof -
  obtain m1 w1 where loop: "fold obj_directive ds (clear m0, 0) = (m1, w1)"
    by (cases "fold obj_directive ds (clear m0, 0)")
  show ?thesis
    using assms
    by (auto simp add: loadOBJ_def loop Let_def calculateTexCoordsSphereMapping_def
        createAllVBOs_keeps split: sum.splits if_splits dest!: calculateNormalsByArea_keeps)
qed

lemma loop_counts:
  "length (vertices (fst (fold obj_directive ds (clear m0, 0)))) = length (filter is_vertex ds) \<and>
   length (triangles (fst (fold obj_directive ds (clear m0, 0)))) =
     length (filter is_triangle_face ds) \<and>
   snd (fold obj_directive ds (clear m0, 0)) = length (filter is_dropped_face ds)"
proof -
  obtain m1 w1 where loop: "fold obj_directive ds (clear m0, 0) = (m1, w1)"
    by (cases "fold obj_directive ds (clear m0, 0)")
  from fold_obj_directive_counts [OF loop] clear_resets [of m0] show ?thesis
    by (simp add: loop)
qed

lemma face_three:
  "length nums = 3 \<Longrightarrow>
   obj_directive (F nums) (m, warnings) =
     (m\<lparr>triangles := triangles m @
          [(face_index (length (vertices m)) (nums ! 0),
            face_index (length (vertices m)) (nums ! 1),
            face_index (length (vertices m)) (nums ! 2))]\<rparr>, warnings)"
  by (simp add: Let_def)

lemma face_other:
  "length nums \<noteq> 3 \<Longrightarrow> obj_directive (F nums) (m, warnings) = (m, warnings + 1)"
  by (simp add: Let_def)

text \<open>
  C9. A face with exactly three numbers appends one triangle, each number converted by
  \<open>face_index\<close> at the current number of vertices; where the specification's formula
  gives a valid index, \<open>face_index\<close> is that index. A face with any other count leaves
  the mesh as it is and adds one warning. After the reading loop, and in the mesh that
  \<open>loadOBJ\<close> returns, there are as many vertices as \<open>v\<close> directives, as many
  triangles as faces of three numbers, and as many warnings as other faces.
\<close>

theorem loadOBJ_faces:
  "(length nums = 3 \<longrightarrow>
      obj_directive (F nums) (m, warnings) =
        (m\<lparr>triangles := triangles m @
             [(face_index (length (vertices m)) (nums ! 0),
               face_index (length (vertices m)) (nums ! 1),
               face_index (length (vertices m)) (nums ! 2))]\<rparr>, warnings)) \<and>
   (length (vertices m) < 2 ^ 31 \<and> 0 \<le> spec_face_index (length (vertices m)) (sint num) \<longrightarrow>
      uint (face_index (length (vertices m)) num) =
        spec_face_index (length (vertices m)) (sint num)) \<and>
   (length nums \<noteq> 3 \<longrightarrow> obj_directive (F nums) (m, warnings) = (m, warnings + 1)) \<and>
   length (vertices (fst (fold obj_directive ds (clear m0, 0)))) = length (filter is_vertex ds) \<and>
   length (triangles (fst (fold obj_directive ds (clear m0, 0)))) =
     length (filter is_triangle_face ds) \<and>
   snd (fold obj_directive ds (clear m0, 0)) = length (filter is_dropped_face ds) \<and>
   (loadOBJ nz zs gl (Some ds) createVBOs m0 = Inr (m', warnings') \<longrightarrow>
      length (vertices m') = length (filter is_vertex ds) \<and>
      length (triangles m') = length (filter is_triangle_face ds) \<and>
      warnings' = length (filter is_dropped_face ds))"
proof (intro conjI)
  show "length nums = 3 \<longrightarrow>
      obj_directive (F nums) (m, warnings) =
        (m\<lparr>triangles := triangles m @
             [(face_index (length (vertices m)) (nums ! 0),
               face_index (length (vertices m)) (nums ! 1),
               face_index (length (vertices m)) (nums ! 2))]\<rparr>, warnings)"
    using face_three [of nums m warnings] by (rule impI)
  show "length (vertices m) < 2 ^ 31 \<and> 0 \<le> spec_face_index (length (vertices m)) (sint num) \<longrightarrow>
      uint (face_index (length (vertices m)) num) =
        spec_face_index (length (vertices m)) (sint num)"
    using face_index_spec [of "length (vertices m)" num] by blast
  show "length nums \<noteq> 3 \<longrightarrow> obj_directive (F nums) (m, warnings) = (m, warnings + 1)"
    using face_other [of nums m warnings] by (rule impI)
  show "length (vertices (fst (fold obj_directive ds (clear m0, 0)))) =
        length (filter is_vertex ds)"
    using loop_counts [of ds m0] by (rule conjunct1)
  show "length (triangles (fst (fold obj_directive ds (clear m0, 0)))) =
        length (filter is_triangle_face ds)"
    using loop_counts [of ds m0] by (elim conjE)
  show "snd (fold obj_directive ds (clear m0, 0)) = length (filter is_dropped_face ds)"
    using loop_counts [of ds m0] by (elim conjE)
  show "loadOBJ nz zs gl (Some ds) createVBOs m0 = Inr (m', warnings') \<longrightarrow>
      length (vertices m') = length (filter is_vertex ds) \<and>
      length (triangles m') = length (filter is_triangle_face ds) \<and>
      warnings' = length (filter is_dropped_face ds)"
  proof
    assume "loadOBJ nz zs gl (Some ds) createVBOs m0 = Inr (m', warnings')"
    from loadOBJ_arrays [OF this] loop_counts [of ds m0]
    show "length (vertices m') = length (filter is_vertex ds) \<and>
          length (triangles m') = length (filter is_triangle_face ds) \<and>
          warnings' = length (filter is_dropped_face ds)"
      by (simp only:)
  qed
qed

lemma quad_loaded_eval:
  "map_sum id (\<lambda>r. (vertices (fst r), triangles (fst r), snd r)) quad_loaded =
   Inr ([(0, 0, 0), (1, 0, 0), (1, 1, 0), (0, 1, 0)], [(0, 1, 2), (0, 2, 3)], 1)"
  by (simp add: quad_loaded_def load_defs file_quad_def)

text \<open>
  C9 on the file of the square: a face 1 2 3 on a mesh of four vertices gives the triangle
  (0, 1, 2), the index -4 is the index 0, the face of five numbers is dropped with a
  warning, and the file loads into 4 vertices and 2 triangles with 1 warning.
\<close>

theorem loadOBJ_faces_witness:
  "length [1, 2, 3 :: 32 word] = 3 \<and>
   triangles (fst (obj_directive (F [1, 2, 3]) (fst (projr quad_loaded), 1))) =
     [(0, 1, 2), (0, 2, 3), (0, 1, 2)] \<and>
   length (vertices (fst (projr quad_loaded))) < 2 ^ 31 \<and>
   0 \<le> spec_face_index (length (vertices (fst (projr quad_loaded)))) (sint (- 4 :: 32 word)) \<and>
   uint (face_index (length (vertices (fst (projr quad_loaded)))) (- 4)) = 0 \<and>
   length [1, 2, 3, 4, 1 :: 32 word] \<noteq> 3 \<and>
   obj_directive (F [1, 2, 3, 4, 1]) (fst (projr quad_loaded), 1) = (fst (projr quad_loaded), 2) \<and>
   quad_loaded = Inr (fst (projr quad_loaded), 1) \<and>
   length (vertices (fst (projr quad_loaded))) = 4 \<and>
   length (triangles (fst (projr quad_loaded))) = 2"
proof -
  have "\<exists>M. quad_loaded = Inr (M, 1) \<and>
            vertices M = [(0, 0, 0), (1, 0, 0), (1, 1, 0), (0, 1, 0)] \<and>
            triangles M = [(0, 1, 2), (0, 2, 3)]"
  proof (cases quad_loaded)
    case (Inl e)
    show ?thesis using quad_loaded_eval unfolding Inl by simp
  next
    case (Inr r)
    show ?thesis using quad_loaded_eval unfolding Inr by (cases r) simp
  qed
  then obtain M where M: "quad_loaded = Inr (M, 1)"
    and vs: "vertices M = [(0, 0, 0), (1, 0, 0), (1, 1, 0), (0, 1, 0)]"
    and ts: "triangles M = [(0, 1, 2), (0, 2, 3)]"
    by blast
  have ld: "loadOBJ vzero no_negative_zero gl_fresh (Some file_quad) False (TriangleMesh_new True) = Inr (M, 1)"
    using M by (simp add: quad_loaded_def)
  have l4: "length (vertices M) = 4"
    by (simp add: vs)
  have sp: "0 \<le> spec_face_index (length (vertices M)) (sint (- 4 :: 32 word))"
    by (simp add: l4 spec_face_index_def)
  note a = loadOBJ_faces [of "[1, 2, 3]" M 1 "- 4" file_quad "TriangleMesh_new True"
      vzero no_negative_zero gl_fresh False M 1]
  note b = loadOBJ_faces [of "[1, 2, 3, 4, 1]" M 1 "- 4" file_quad "TriangleMesh_new True"
      vzero no_negative_zero gl_fresh False M 1]
  have three: "obj_directive (F [1, 2, 3]) (M, 1) =
        (M\<lparr>triangles := triangles M @
             [(face_index (length (vertices M)) ([1, 2, 3] ! 0),
               face_index (length (vertices M)) ([1, 2, 3] ! 1),
               face_index (length (vertices M)) ([1, 2, 3] ! 2))]\<rparr>, 1)"
    using a [THEN conjunct1] by simp
  have e: "triangles (fst (obj_directive (F [1, 2, 3]) (M, 1))) = [(0, 1, 2), (0, 2, 3), (0, 1, 2)]"
    unfolding three by (simp add: ts face_index_def)
  have d: "uint (face_index (length (vertices M)) (- 4)) =
           spec_face_index (length (vertices M)) (sint (- 4 :: 32 word))"
    using a [THEN conjunct2, THEN conjunct1] sp l4 by simp
  have d': "uint (face_index (length (vertices M)) (- 4)) = 0"
    unfolding d by (simp add: l4 spec_face_index_def)
  have f: "obj_directive (F [1, 2, 3, 4, 1]) (M, 1) = (M, 2)"
    using b [THEN conjunct2, THEN conjunct2, THEN conjunct1] by simp
  have c: "length (vertices M) = length (filter is_vertex file_quad) \<and>
           length (triangles M) = length (filter is_triangle_face file_quad) \<and>
           1 = length (filter is_dropped_face file_quad)"
    using a [THEN conjunct2, THEN conjunct2, THEN conjunct2, THEN conjunct2, THEN conjunct2,
        THEN conjunct2] ld by blast
  have c': "length (vertices M) = 4" "length (triangles M) = 2"
    using c by (simp_all add: file_quad_def)
  have fm: "fst (projr quad_loaded) = M"
    by (simp add: M)
  show ?thesis
    unfolding fm using c' d' e f sp M by simp
qed

text \<open>
  C10. The loader checks no index. In the file with the face 0 1 1 the index 0 becomes
  4294967295, and in the file with the face 5 6 7 the indices are 4, 5 and 6: each file
  loads, with its one vertex, into a mesh with a triangle whose first index is not below
  the number of vertices.
\<close>

theorem loadOBJ_index_out_of_range:
  "map_sum id (triangles \<circ> fst)
     (loadOBJ vzero no_negative_zero gl_fresh (Some file_index_zero) False (TriangleMesh_new True)) =
     Inr [(4294967295, 0, 0)] \<and>
   map_sum id (length \<circ> vertices \<circ> fst)
     (loadOBJ vzero no_negative_zero gl_fresh (Some file_index_zero) False (TriangleMesh_new True)) = Inr 1 \<and>
   \<not> unat (4294967295 :: 32 word) < 1 \<and>
   map_sum id (triangles \<circ> fst)
     (loadOBJ vzero no_negative_zero gl_fresh (Some file_index_beyond) False (TriangleMesh_new True)) =
     Inr [(4, 5, 6)] \<and>
   map_sum id (length \<circ> vertices \<circ> fst)
     (loadOBJ vzero no_negative_zero gl_fresh (Some file_index_beyond) False (TriangleMesh_new True)) = Inr 1 \<and>
   \<not> unat (4 :: 32 word) < 1"
  by (simp add: load_defs file_index_zero_def file_index_beyond_def)

section \<open>Properties of the frustum culling\<close>

lemma float_magnitude_normal:
  assumes "a * a + b * b + c * c \<le> FLT_MAX"
    and "FLT_TRUE_MIN / 2 < a * a \<or> FLT_TRUE_MIN / 2 < b * b \<or> FLT_TRUE_MIN / 2 < c * c"
  shows "float_magnitude (a, b, c) = Fin (sqrt (a * a + b * b + c * c)) \<and>
         0 < sqrt (a * a + b * b + c * c)"
proof -
  have t: "0 < FLT_TRUE_MIN / 2"
    by (simp add: FLT_TRUE_MIN_def)
  have "0 \<le> a * a" "0 \<le> b * b" "0 \<le> c * c"
    by simp_all
  with assms(2) t have "0 < a * a + b * b + c * c"
    by linarith
  then show ?thesis
    using assms by (auto simp add: float_magnitude_def)
qed

lemma float_magnitude_zero: "float_magnitude (0, 0, 0) = Fin 0"
  by (simp add: float_magnitude_def FLT_MAX_def FLT_TRUE_MIN_def)

lemma plane_rejects_zero_normal:
  "\<not> plane_rejects p (normalize_plane \<lparr>plane_n = (0, 0, 0), plane_d = d\<rparr>)"
  by (cases p) (simp add: plane_rejects_def normalize_plane_def float_magnitude_zero fdiv_def
      fsub_def)

text \<open>
  Where the squares of a normal overflow, the magnitude is infinite, the plane becomes the
  zero plane and rejects no point.
\<close>

lemma plane_rejects_overflow:
  "FLT_MAX < a * a + b * b + c * c \<Longrightarrow>
   \<not> plane_rejects p (normalize_plane \<lparr>plane_n = (a, b, c), plane_d = d\<rparr>)"
  by (cases p) (simp add: plane_rejects_def normalize_plane_def float_magnitude_def fsub_def)

lemma plane_rejects_normal:
  assumes "a * a + b * b + c * c \<le> FLT_MAX"
    and "FLT_TRUE_MIN / 2 < a * a \<or> FLT_TRUE_MIN / 2 < b * b \<or> FLT_TRUE_MIN / 2 < c * c"
  shows "plane_rejects (x, y, z) (normalize_plane \<lparr>plane_n = (a, b, c), plane_d = d\<rparr>) \<longleftrightarrow>
         0 < a * x + b * y + c * z - d"
proof -
  define mg where "mg = sqrt (a * a + b * b + c * c)"
  from float_magnitude_normal [OF assms]
  have fm: "float_magnitude (a, b, c) = Fin mg" and pos: "0 < mg"
    by (simp_all add: mg_def)
  have "x * (a / mg) + y * (b / mg) + z * (c / mg) - d / mg = (a * x + b * y + c * z - d) / mg"
    by (simp add: add_divide_distrib diff_divide_distrib mult.commute)
  then have "0 < x * (a / mg) + y * (b / mg) + z * (c / mg) - d / mg \<longleftrightarrow>
             0 < a * x + b * y + c * z - d"
    using pos by (simp add: zero_less_divide_iff)
  then show ?thesis
    using pos by (simp add: plane_rejects_def normalize_plane_def fm fdiv_def fsub_def)
qed

text \<open>
  What the test of the code is on the plane of row 3 and row \<open>i\<close>, for a normal in the
  range of the floats.
\<close>

lemma plane_rejects_in_range:
  assumes "in_float_range VP i sg"
  shows "plane_rejects p (normalize_plane (row_plane VP i sg)) \<longleftrightarrow>
         plane_n (row_plane VP i sg) \<noteq> vzero \<and>
         0 < dotProduct p (plane_n (row_plane VP i sg)) - plane_d (row_plane VP i sg)"
proof -
  obtain x y z where p: "p = (x, y, z)" by (cases p)
  obtain a b c where n: "plane_n (row_plane VP i sg) = (a, b, c)"
    by (cases "plane_n (row_plane VP i sg)")
  define d where "d = plane_d (row_plane VP i sg)"
  have rp: "row_plane VP i sg = \<lparr>plane_n = (a, b, c), plane_d = d\<rparr>"
    using n by (simp add: d_def row_plane_def)
  from assms have le: "a * a + b * b + c * c \<le> FLT_MAX"
    and cs: "a = 0 \<and> b = 0 \<and> c = 0 \<or>
             FLT_TRUE_MIN / 2 < a * a \<or> FLT_TRUE_MIN / 2 < b * b \<or> FLT_TRUE_MIN / 2 < c * c"
    by (simp_all add: in_float_range_def n)
  show ?thesis
  proof (cases "a = 0 \<and> b = 0 \<and> c = 0")
    case True
    then show ?thesis
      using plane_rejects_zero_normal [of p d] by (simp add: rp vzero_def)
  next
    case False
    with cs have "FLT_TRUE_MIN / 2 < a * a \<or> FLT_TRUE_MIN / 2 < b * b \<or> FLT_TRUE_MIN / 2 < c * c"
      by blast
    from plane_rejects_normal [OF le this, of x y z d] False show ?thesis
      by (simp add: rp p vzero_def mult.commute)
  qed
qed

lemma inside_half_space_iff:
  "inside_half_space VP i sg p \<longleftrightarrow>
   plane_n (row_plane VP i sg) = vzero \<or>
   0 \<le> dotProduct p (plane_n (row_plane VP i sg)) + plane_d (row_plane VP i sg)"
proof -
  obtain x y z where p: "p = (x, y, z)" by (cases p)
  obtain a b c where n: "plane_n (row_plane VP i sg) = (a, b, c)"
    by (cases "plane_n (row_plane VP i sg)")
  define d where "d = plane_d (row_plane VP i sg)"
  define mg where "mg = sqrt (a * a + b * b + c * c)"
  have z: "mg = 0 \<longleftrightarrow> a = 0 \<and> b = 0 \<and> c = 0"
    by (auto simp add: mg_def add_nonneg_eq_0_iff)
  have "mg = 0 \<or> 0 \<le> x * (1 / mg * a) + y * (1 / mg * b) + z * (1 / mg * c) + d / mg \<longleftrightarrow>
        mg = 0 \<or> 0 \<le> x * a + y * b + z * c + d"
  proof (cases "mg = 0")
    case True
    then show ?thesis by simp
  next
    case False
    have pos: "0 < mg"
      using False by (simp add: mg_def less_le)
    have "x * (1 / mg * a) + y * (1 / mg * b) + z * (1 / mg * c) + d / mg
          = (x * a + y * b + z * c + d) / mg"
      by (simp add: add_divide_distrib)
    then show ?thesis
      using pos by (simp add: zero_le_divide_iff)
  qed
  then show ?thesis
    using z by (simp add: inside_half_space_def Let_def n p d_def [symmetric] mg_def vzero_def)
qed

text \<open>
  Off the origin the test of the code is not the inside half-space of the standard
  identities but its mirror image in the origin: the code rejects \<open>p\<close> where \<open>-p\<close> is
  outside.
\<close>

lemma rejects_is_mirror:
  assumes "in_float_range VP i sg"
  shows "plane_rejects p (normalize_plane (row_plane VP i sg)) \<longleftrightarrow>
         \<not> inside_half_space VP i sg (vscale (- 1) p)"
proof -
  obtain x y z where p: "p = (x, y, z)" by (cases p)
  obtain a b c where n: "plane_n (row_plane VP i sg) = (a, b, c)"
    by (cases "plane_n (row_plane VP i sg)")
  show ?thesis
    unfolding plane_rejects_in_range [OF assms] inside_half_space_iff
    by (auto simp add: p n)
qed

lemma frustum_planes_rows:
  "frustum_planes VP =
     [row_plane VP 0 1, row_plane VP 0 (- 1), row_plane VP 1 1, row_plane VP 1 (- 1),
      row_plane VP 2 1, row_plane VP 2 (- 1)]"
  by (simp add: frustum_planes_def row_plane_def mat_data_def Let_def)

text \<open>
  The planes that the code reads from the sixteen entries of \<open>VP\<close> are the six sums and
  differences of its rows, and the loop accepts the midpoint when none of them rejects it.
\<close>

lemma visible_rows:
  "boundingBoxIsVisible state m \<longleftrightarrow>
   all_planes (\<lambda>i sg. \<not> plane_rejects (boundingBoxMid m)
      (normalize_plane (row_plane (mat_mul (projectionMatrix state) (modelViewMatrix state)) i sg)))"
  by (simp add: boundingBoxIsVisible_def frustum_planes_rows Let_def all_planes_def)


lemma mat_mul_identity_entry: "c < 4 \<Longrightarrow> mat_mul A mat_identity r c = A r c"
proof -
  assume "c < 4"
  then consider "c = 0" | "c = 1" | "c = 2" | "c = 3" by linarith
  then show ?thesis
    by cases (simp_all add: mat_mul_def mat_identity_def)
qed

lemma row_plane_mat_mul_identity: "row_plane (mat_mul A mat_identity) i sg = row_plane A i sg"
  by (simp add: row_plane_def mat_mul_identity_entry)

















text \<open>
  The mirror image under the perspective projection above: a midpoint on the axis at depth
  -2, between the near and the far plane in front of the camera, is culled, and one at
  depth 2, behind the camera, is accepted.
\<close>

lemma perspective_depth_sign:
  "\<not> boundingBoxIsVisible state_perspective ((TriangleMesh_new True)\<lparr>boundingBoxMid := (0, 0, - 2)\<rparr>) \<and>
   boundingBoxIsVisible state_perspective ((TriangleMesh_new True)\<lparr>boundingBoxMid := (0, 0, 2)\<rparr>)"
proof -
  have r: "all_planes (in_float_range (perspective 1 1 1 3))"
    by (simp add: all_planes_def in_float_range_def row_plane_def perspective_def FLT_MAX_def
        FLT_TRUE_MIN_def)
  have "boundingBoxIsVisible state_perspective (m\<lparr>boundingBoxMid := (0, 0, z)\<rparr>) \<longleftrightarrow>
        all_planes (\<lambda>i sg. inside_half_space (perspective 1 1 1 3) i sg (0, 0, - z))" for m z
    using r by (simp add: visible_rows state_perspective_def row_plane_mat_mul_identity
        all_planes_def rejects_is_mirror)
  then show ?thesis
    by (simp add: all_planes_def inside_half_space_iff row_plane_def perspective_def vzero_def)
qed

end
